theory Spec2Isabelle
  imports Complex_Main "HOL-Library.AList"
begin

section \<open>A shallow embedding of \<^verbatim>\<open>app.py\<close>\<close>

text \<open>
  The program is one Flask handler, \<^verbatim>\<open>calculate_similarity_api\<close>, around one routine,
  \<^verbatim>\<open>get_nasa_similarity_for_location\<close> (the spec's \<^verbatim>\<open>compare\<close>). Its own code is
  sequencing: every computation is delegated to a library (datetime, requests,
  matplotlib, skimage, sklearn). The embedding keeps the sequencing as it is written and
  takes each library call as a field of an environment record, so that nothing is
  assumed about what the libraries compute.

  Conventions.
  \<^item> A Python float is a \<^typ>\<open>real\<close>: the program only compares floats (\<^verbatim>\<open><\<close>,
    \<^verbatim>\<open>==\<close>) and adds or subtracts \<^verbatim>\<open>0.5\<close>; rounding, infinities and NaN are not
    represented.
  \<^item> A date is its proleptic Gregorian ordinal (Python's \<^verbatim>\<open>toordinal\<close>): day 1 is
    0001-01-01, the smallest date Python represents.
  \<^item> A \<^verbatim>\<open>dict\<close> is the list of its items in insertion order, keys distinct.
  \<^item> An exception that no \<^verbatim>\<open>except\<close> clause of the program catches is a value:
    \<open>Raised\<close> for the routine, \<open>Unhandled\<close> for the handler.
  \<^item> The outbound requests are recorded, in order, in a list returned beside the result.
  \<^item> Calls to \<^verbatim>\<open>logging\<close> are left out: they change no result.
\<close>

subsection \<open>Python values\<close>

datatype py_exn =
    ValueError
  | TypeError
  | KeyError
  | AttributeError
  | OverflowError
  | LibraryError string

datatype json =
    JNull
  | JBool bool
  | JNum real
  | JStr string
  | JArr "json list"
  | JObj "(string \<times> json) list"

type_synonym params = "(string \<times> string) list"

record response =
  status_code :: nat
  content :: string

record ('img, 'vec) env =
  strptime :: "string \<Rightarrow> int option"
    \<comment> \<open>\<^verbatim>\<open>datetime.strptime(s, '%Y-%m-%d')\<close>; \<open>None\<close> is its ValueError\<close>
  strftime :: "int \<Rightarrow> string"
    \<comment> \<open>\<^verbatim>\<open>d.strftime('%Y-%m-%d')\<close>\<close>
  str_float :: "real \<Rightarrow> string"
    \<comment> \<open>\<^verbatim>\<open>f"{x}"\<close> for a float\<close>
  fmt4 :: "real \<Rightarrow> string"
    \<comment> \<open>\<^verbatim>\<open>f"{x:.4f}"\<close>\<close>
  float_of_str :: "string \<Rightarrow> real option"
    \<comment> \<open>\<^verbatim>\<open>float(s)\<close> for a str; \<open>None\<close> is its ValueError\<close>
  exn_text :: "py_exn \<Rightarrow> string"
    \<comment> \<open>\<^verbatim>\<open>str(e)\<close>\<close>
  http_get :: "nat \<Rightarrow> string \<Rightarrow> params \<Rightarrow> string + response"
    \<comment> \<open>\<^verbatim>\<open>requests.get(url, params=...)\<close>, given the number of requests made before;
        \<open>Inl e\<close> is a RequestException whose text is \<open>e\<close>\<close>
  http_error_text :: "response \<Rightarrow> string"
    \<comment> \<open>the text of the HTTPError that \<^verbatim>\<open>raise_for_status\<close> raises\<close>
  imread :: "string \<Rightarrow> py_exn + 'img"
    \<comment> \<open>\<^verbatim>\<open>plt.imread(io.BytesIO(buf))\<close>\<close>
  resize :: "'img \<Rightarrow> nat \<times> nat \<Rightarrow> bool \<Rightarrow> py_exn + 'img"
    \<comment> \<open>\<^verbatim>\<open>resize(img, shape, anti_aliasing=...)\<close>\<close>
  np_flatten :: "'img \<Rightarrow> 'vec"
    \<comment> \<open>\<^verbatim>\<open>img.flatten().reshape(1, -1)\<close>\<close>
  cosine_similarity :: "'vec \<Rightarrow> 'vec \<Rightarrow> py_exn + real"
    \<comment> \<open>\<^verbatim>\<open>float(cosine_similarity(u, v)[0][0])\<close>\<close>

subsection \<open>The comparison routine\<close>

text \<open>\<^verbatim>\<open>d - timedelta(days=n)\<close>: Python raises OverflowError below date.min.\<close>

definition minus_days :: "int \<Rightarrow> int \<Rightarrow> py_exn + int" where
  "minus_days d n = (if d - n < 1 then Inl OverflowError else Inr (d - n))"

definition nasa_base_url :: string where
  "nasa_base_url = ''https://gibs.earthdata.nasa.gov/wms/epsg4326/best/wms.cgi''"

definition delta :: real where
  "delta = 0.5"

definition bbox_str :: "('img, 'vec) env \<Rightarrow> real \<Rightarrow> real \<Rightarrow> string" where
  "bbox_str env lat lng =
     str_float env (lng - delta) @ '','' @ str_float env (lat - delta) @ '','' @
     str_float env (lng + delta) @ '','' @ str_float env (lat + delta)"

definition base_params :: "('img, 'vec) env \<Rightarrow> real \<Rightarrow> real \<Rightarrow> params" where
  "base_params env lat lng =
     [(''SERVICE'', ''WMS''),
      (''REQUEST'', ''GetMap''),
      (''VERSION'', ''1.3.0''),
      (''LAYERS'', ''MODIS_Terra_CorrectedReflectance_TrueColor''),
      (''FORMAT'', ''image/png''),
      (''CRS'', ''EPSG:4326''),
      (''BBOX'', bbox_str env lat lng),
      (''WIDTH'', ''1024''),
      (''HEIGHT'', ''1024'')]"

text \<open>\<^verbatim>\<open>p = base_params.copy(); p['TIME'] = t\<close>\<close>

definition time_params :: "('img, 'vec) env \<Rightarrow> real \<Rightarrow> real \<Rightarrow> string \<Rightarrow> params" where
  "time_params env lat lng t = AList.update ''TIME'' t (base_params env lat lng)"

definition raise_for_status :: "('img, 'vec) env \<Rightarrow> response \<Rightarrow> string + response" where
  "raise_for_status env r =
     (if 400 \<le> status_code r \<and> status_code r < 600 then Inl (http_error_text env r)
      else Inr r)"

text \<open>
  \<^verbatim>\<open>r = requests.get(url, params=p); r.raise_for_status(); buf = r.content\<close> as the
  \<open>n\<close>-th request: the text of the RequestException, or the body.
\<close>

definition fetch_result :: "('img, 'vec) env \<Rightarrow> nat \<Rightarrow> params \<Rightarrow> string + string" where
  "fetch_result env n p =
     (case http_get env n nasa_base_url p of
        Inl e \<Rightarrow> Inl e
      | Inr r \<Rightarrow>
          (case raise_for_status env r of
             Inl e \<Rightarrow> Inl e
           | Inr r' \<Rightarrow> Inr (content r')))"

definition fetch :: "('img, 'vec) env \<Rightarrow> params \<Rightarrow> params list \<Rightarrow> (string + string) \<times> params list" where
  "fetch env p sent = (fetch_result env (length sent) p, sent @ [p])"

text \<open>Lines 66 to 76: decode both images, resize both, flatten both, score.\<close>

definition week_score :: "('img, 'vec) env \<Rightarrow> string \<Rightarrow> string \<Rightarrow> py_exn + ('vec \<times> real)" where
  "week_score env image1_buffer image2_buffer_week =
     (case imread env image1_buffer of
        Inl x \<Rightarrow> Inl x
      | Inr img1 \<Rightarrow>
     (case imread env image2_buffer_week of
        Inl x \<Rightarrow> Inl x
      | Inr img2_week \<Rightarrow>
     (case resize env img1 (100, 100) True of
        Inl x \<Rightarrow> Inl x
      | Inr img1_resized \<Rightarrow>
     (case resize env img2_week (100, 100) True of
        Inl x \<Rightarrow> Inl x
      | Inr img2_resized_week \<Rightarrow>
     (let vec1 = np_flatten env img1_resized;
          vec2_week = np_flatten env img2_resized_week
      in case cosine_similarity env vec1 vec2_week of
           Inl x \<Rightarrow> Inl x
         | Inr score \<Rightarrow> Inr (vec1, score))))))"

text \<open>Lines 94 to 99: the same for the fallback image, against the same \<open>vec1\<close>.\<close>

definition two_weeks_score :: "('img, 'vec) env \<Rightarrow> 'vec \<Rightarrow> string \<Rightarrow> py_exn + real" where
  "two_weeks_score env vec1 image2_buffer_two_weeks =
     (case imread env image2_buffer_two_weeks of
        Inl x \<Rightarrow> Inl x
      | Inr img2_two_weeks \<Rightarrow>
     (case resize env img2_two_weeks (100, 100) True of
        Inl x \<Rightarrow> Inl x
      | Inr img2_resized_two_weeks \<Rightarrow>
          cosine_similarity env vec1 (np_flatten env img2_resized_two_weeks)))"

datatype outcome =
    Returned "real option" "string option"
  | Raised py_exn

text \<open>Lines 78 to 101, entered with the week-prior score and two requests made.\<close>

definition fallback ::
  "('img, 'vec) env \<Rightarrow> real \<Rightarrow> real \<Rightarrow> int \<Rightarrow> real \<Rightarrow> 'vec \<Rightarrow> real \<Rightarrow> params list
     \<Rightarrow> outcome \<times> params list" where
  "fallback env lat lng date1_obj threshold vec1 score sent =
     (if score < threshold then
        (case minus_days date1_obj 14 of
           Inl x \<Rightarrow> (Raised x, sent)
         | Inr date2_obj_two_weeks \<Rightarrow>
             (case fetch env (time_params env lat lng (strftime env date2_obj_two_weeks)) sent of
                (Inl e, sent') \<Rightarrow> (Returned (Some score) None, sent')
              | (Inr image2_buffer_two_weeks, sent') \<Rightarrow>
                  (case two_weeks_score env vec1 image2_buffer_two_weeks of
                     Inl x \<Rightarrow> (Raised x, sent')
                   | Inr score' \<Rightarrow> (Returned (Some score') None, sent'))))
      else (Returned (Some score) None, sent))"

definition get_nasa_similarity_for_location ::
  "('img, 'vec) env \<Rightarrow> real \<Rightarrow> real \<Rightarrow> string \<Rightarrow> real \<Rightarrow> outcome \<times> params list" where
  "get_nasa_similarity_for_location env lat lng date_str threshold =
     (case strptime env date_str of
        None \<Rightarrow> (Returned None (Some ''Invalid date format. Please use YYYY-MM-DD.''), [])
      | Some date1_obj \<Rightarrow>
     (case minus_days date1_obj 7 of
        Inl x \<Rightarrow> (Raised x, [])
      | Inr date2_obj_week \<Rightarrow>
     (case fetch env (time_params env lat lng date_str) [] of
        (Inl e, sent1) \<Rightarrow>
          (Returned None (Some (''Could not retrieve images from NASA. Error: '' @ e)), sent1)
      | (Inr image1_buffer, sent1) \<Rightarrow>
     (case fetch env (time_params env lat lng (strftime env date2_obj_week)) sent1 of
        (Inl e, sent2) \<Rightarrow>
          (Returned None (Some (''Could not retrieve images from NASA. Error: '' @ e)), sent2)
      | (Inr image2_buffer_week, sent2) \<Rightarrow>
     (case week_score env image1_buffer image2_buffer_week of
        Inl x \<Rightarrow> (Raised x, sent2)
      | Inr (vec1, score) \<Rightarrow>
          fallback env lat lng date1_obj threshold vec1 score sent2)))))"

subsection \<open>The request handler\<close>

text \<open>
  What the handler does with \<^verbatim>\<open>data = request.get_json()\<close>, for every JSON value
  \<open>data\<close>: truth value, \<^verbatim>\<open>field in data\<close>, \<^verbatim>\<open>data[k]\<close>,
  \<^verbatim>\<open>data.get(k, default)\<close> and \<^verbatim>\<open>float(v)\<close>.
\<close>

fun truthy :: "json \<Rightarrow> bool" where
  "truthy JNull = False"
| "truthy (JBool b) = b"
| "truthy (JNum x) = (x \<noteq> 0)"
| "truthy (JStr s) = (s \<noteq> [])"
| "truthy (JArr xs) = (xs \<noteq> [])"
| "truthy (JObj d) = (d \<noteq> [])"

fun starts_with :: "string \<Rightarrow> string \<Rightarrow> bool" where
  "starts_with [] s = True"
| "starts_with (a # as) [] = False"
| "starts_with (a # as) (b # bs) = (a = b \<and> starts_with as bs)"

fun contains_str :: "string \<Rightarrow> string \<Rightarrow> bool" where
  "contains_str k [] = (k = [])"
| "contains_str k (c # cs) = (starts_with k (c # cs) \<or> contains_str k cs)"

fun py_in :: "string \<Rightarrow> json \<Rightarrow> py_exn + bool" where
  "py_in k (JObj d) = Inr (map_of d k \<noteq> None)"
| "py_in k (JArr xs) = Inr (List.member xs (JStr k))"
| "py_in k (JStr s) = Inr (contains_str k s)"
| "py_in k JNull = Inl TypeError"
| "py_in k (JBool b) = Inl TypeError"
| "py_in k (JNum x) = Inl TypeError"

text \<open>\<^verbatim>\<open>all(field in data for field in fields)\<close>: stops at the first miss.\<close>

fun all_fields_in :: "json \<Rightarrow> string list \<Rightarrow> py_exn + bool" where
  "all_fields_in data [] = Inr True"
| "all_fields_in data (f # fs) =
     (case py_in f data of
        Inl x \<Rightarrow> Inl x
      | Inr present \<Rightarrow> (if present then all_fields_in data fs else Inr False))"

fun py_getitem :: "json \<Rightarrow> string \<Rightarrow> py_exn + json" where
  "py_getitem (JObj d) k = (case map_of d k of None \<Rightarrow> Inl KeyError | Some v \<Rightarrow> Inr v)"
| "py_getitem data k = Inl TypeError"

fun py_get :: "json \<Rightarrow> string \<Rightarrow> json \<Rightarrow> py_exn + json" where
  "py_get (JObj d) k dflt = Inr (case map_of d k of None \<Rightarrow> dflt | Some v \<Rightarrow> v)"
| "py_get data k dflt = Inl AttributeError"

fun py_float :: "('img, 'vec) env \<Rightarrow> json \<Rightarrow> py_exn + real" where
  "py_float env (JNum x) = Inr x"
| "py_float env (JBool b) = Inr (if b then 1 else 0)"
| "py_float env (JStr s) = (case float_of_str env s of None \<Rightarrow> Inl ValueError | Some x \<Rightarrow> Inr x)"
| "py_float env v = Inl TypeError"

definition required_fields :: "string list" where
  "required_fields = [''lat'', ''lng'', ''date_str'']"

text \<open>\<^verbatim>\<open>f"{required_fields}"\<close>\<close>

definition required_fields_repr :: string where
  "required_fields_repr =
     ''['' @ [CHR 0x27] @ ''lat'' @ [CHR 0x27] @ '', '' @ [CHR 0x27] @ ''lng'' @ [CHR 0x27] @
     '', '' @ [CHR 0x27] @ ''date_str'' @ [CHR 0x27] @ '']''"

datatype http_result =
    Response nat json
  | Unhandled py_exn

definition error_body :: "string \<Rightarrow> json" where
  "error_body msg = JObj [(''error'', JStr msg)]"

text \<open>Lines 118 to 122, the body of the \<^verbatim>\<open>try\<close>, in order.\<close>

definition read_fields :: "('img, 'vec) env \<Rightarrow> json \<Rightarrow> py_exn + (real \<times> real \<times> json \<times> real)" where
  "read_fields env data =
     (case py_getitem data ''lat'' of Inl x \<Rightarrow> Inl x | Inr v1 \<Rightarrow>
     (case py_float env v1 of Inl x \<Rightarrow> Inl x | Inr lat \<Rightarrow>
     (case py_getitem data ''lng'' of Inl x \<Rightarrow> Inl x | Inr v2 \<Rightarrow>
     (case py_float env v2 of Inl x \<Rightarrow> Inl x | Inr lng \<Rightarrow>
     (case py_getitem data ''date_str'' of Inl x \<Rightarrow> Inl x | Inr date_str \<Rightarrow>
     (case py_get data ''threshold'' (JNum 0.75) of Inl x \<Rightarrow> Inl x | Inr v3 \<Rightarrow>
     (case py_float env v3 of Inl x \<Rightarrow> Inl x | Inr threshold \<Rightarrow>
        Inr (lat, lng, date_str, threshold))))))))"

text \<open>
  Lines 110 to 124: the handler up to the call of the routine. \<open>Inl\<close> is the handler's
  result when it ends there, \<open>Inr\<close> the arguments of the call.
\<close>

definition parse_request ::
  "('img, 'vec) env \<Rightarrow> json \<Rightarrow> http_result + (real \<times> real \<times> json \<times> real)" where
  "parse_request env data =
     (if \<not> truthy data then Inl (Response 400 (error_body ''Invalid request. Must be JSON.''))
      else
        (case all_fields_in data required_fields of
           Inl x \<Rightarrow> Inl (Unhandled x)
         | Inr present \<Rightarrow>
             (if \<not> present then
                Inl (Response 400
                  (error_body (''Missing one or more required fields: '' @ required_fields_repr)))
              else
                (case read_fields env data of
                   Inl x \<Rightarrow>
                     (if x = ValueError \<or> x = TypeError then
                        Inl (Response 400
                          (error_body (''Invalid data type for parameters. '' @ exn_text env x)))
                      else Inl (Unhandled x))
                 | Inr args \<Rightarrow> Inr args))))"

text \<open>Lines 129 to 160: the response for what the routine returned.\<close>

definition respond :: "('img, 'vec) env \<Rightarrow> real option \<Rightarrow> string option \<Rightarrow> real \<Rightarrow> http_result" where
  "respond env score error_message threshold =
     (case (case error_message of None \<Rightarrow> None | Some m \<Rightarrow> (if m = [] then None else Some m)) of
        Some m \<Rightarrow> Response 502 (error_body m)
      | None \<Rightarrow>
          (case score of
             Some s \<Rightarrow>
               (if s = 1 then
                  Response 200 (JObj
                    [(''status'', JStr ''IDENTICAL''),
                     (''message'', JStr ''No change detected; the areas appear identical.''),
                     (''similarity_score'', JNum s),
                     (''threshold_used'', JNum threshold)])
                else if s < threshold then
                  Response 200 (JObj
                    [(''status'', JStr ''SIGNIFICANT_CHANGE_DETECTED''),
                     (''message'', JStr
                        (''Potential deforestation, dumping, or significant land use change detected. The similarity score (''
                         @ fmt4 env s @ '') is below the threshold ('' @ str_float env threshold @ '').'')),
                     (''similarity_score'', JNum s),
                     (''threshold_used'', JNum threshold)])
                else
                  Response 200 (JObj
                    [(''status'', JStr ''NO_SIGNIFICANT_CHANGE''),
                     (''message'', JStr
                        (''No significant change detected. The similarity score (''
                         @ fmt4 env s @ '') is above the threshold ('' @ str_float env threshold @ '').'')),
                     (''similarity_score'', JNum s),
                     (''threshold_used'', JNum threshold)]))
           | None \<Rightarrow> Response 500 (error_body ''An unknown error occurred during processing.'')))"

text \<open>
  Line 127 calls the routine with \<^verbatim>\<open>data['date_str']\<close> as it is; \<^verbatim>\<open>strptime\<close>
  raises TypeError for anything but a str, outside every \<^verbatim>\<open>try\<close>.
\<close>

definition calculate_similarity_api :: "('img, 'vec) env \<Rightarrow> json \<Rightarrow> http_result \<times> params list" where
  "calculate_similarity_api env data =
     (case parse_request env data of
        Inl r \<Rightarrow> (r, [])
      | Inr (lat, lng, date_str, threshold) \<Rightarrow>
          (case date_str of
             JStr s \<Rightarrow>
               (case get_nasa_similarity_for_location env lat lng s threshold of
                  (Raised x, sent) \<Rightarrow> (Unhandled x, sent)
                | (Returned score error_message, sent) \<Rightarrow>
                    (respond env score error_message threshold, sent))
           | _ \<Rightarrow> (Unhandled TypeError, [])))"

subsection \<open>An example environment\<close>

text \<open>
  A stub of the libraries and of the map service for the spec's example request
  (lat -3.4653, lng -62.2159, 2023-08-15, whose ordinal is 738747). The body of a
  response names the date asked for; the stub of the metric scores the week-prior image
  0.5 and every other image 0.25.
\<close>

definition gibs_up :: "nat \<Rightarrow> string \<Rightarrow> params \<Rightarrow> string + response" where
  "gibs_up n url p =
     Inr \<lparr>status_code = 200,
          content = (case map_of p ''TIME'' of None \<Rightarrow> ''png'' | Some t \<Rightarrow> ''png '' @ t)\<rparr>"

definition gibs_two_then_down :: "nat \<Rightarrow> string \<Rightarrow> params \<Rightarrow> string + response" where
  "gibs_two_then_down n url p = (if n < 2 then gibs_up n url p else Inl ''connection refused'')"

definition gibs_one_then_503 :: "nat \<Rightarrow> string \<Rightarrow> params \<Rightarrow> string + response" where
  "gibs_one_then_503 n url p =
     (if n < 1 then gibs_up n url p else Inr \<lparr>status_code = 503, content = []\<rparr>)"

definition example_env ::
  "(nat \<Rightarrow> string \<Rightarrow> params \<Rightarrow> string + response) \<Rightarrow> (string, string) env" where
  "example_env net =
     \<lparr>strptime = (\<lambda>s. if s = ''2023-08-15'' then Some 738747
                       else if s = ''0001-01-03'' then Some 3 else None),
      strftime = (\<lambda>d. if d = 738740 then ''2023-08-08''
                       else if d = 738733 then ''2023-08-01'' else ''0000-00-00''),
      str_float = (\<lambda>x. if x = -62.7159 then ''-62.7159''
                        else if x = -3.9653 then ''-3.9653''
                        else if x = -61.7159 then ''-61.7159''
                        else if x = -2.9653 then ''-2.9653''
                        else if x = 0.75 then ''0.75''
                        else if x = 0.4 then ''0.4'' else ''0.0''),
      fmt4 = (\<lambda>x. if x = 0.5 then ''0.5000'' else if x = 0.25 then ''0.2500'' else ''0.0000''),
      float_of_str = (\<lambda>s. None),
      exn_text = (\<lambda>x. ''exception''),
      http_get = net,
      http_error_text = (\<lambda>r. ''Server Error''),
      imread = Inr,
      resize = (\<lambda>img shape anti_aliasing. Inr img),
      np_flatten = (\<lambda>img. img),
      cosine_similarity = (\<lambda>u v. Inr (if v = ''png 2023-08-08'' then 0.5 else 0.25))\<rparr>"

definition example_request :: "string \<Rightarrow> json" where
  "example_request date_str =
     JObj [(''lat'', JNum (-3.4653)), (''lng'', JNum (-62.2159)), (''date_str'', JStr date_str)]"

section \<open>Properties\<close>

subsection \<open>The paths of the routine\<close>

lemma routine_invalid_date:
  "strptime env date_str = None \<Longrightarrow>
   get_nasa_similarity_for_location env lat lng date_str threshold =
     (Returned None (Some ''Invalid date format. Please use YYYY-MM-DD.''), [])"
  by (simp add: get_nasa_similarity_for_location_def)

lemma routine_first_fetch_fails:
  assumes "strptime env date_str = Some d"
    and "minus_days d 7 = Inr d7"
    and "fetch_result env 0 (time_params env lat lng date_str) = Inl e"
  shows "get_nasa_similarity_for_location env lat lng date_str threshold =
     (Returned None (Some (''Could not retrieve images from NASA. Error: '' @ e)),
      [time_params env lat lng date_str])"
  using assms by (simp add: get_nasa_similarity_for_location_def fetch_def)

lemma routine_second_fetch_fails:
  assumes "strptime env date_str = Some d"
    and "minus_days d 7 = Inr d7"
    and "fetch_result env 0 (time_params env lat lng date_str) = Inr b1"
    and "fetch_result env 1 (time_params env lat lng (strftime env d7)) = Inl e"
  shows "get_nasa_similarity_for_location env lat lng date_str threshold =
     (Returned None (Some (''Could not retrieve images from NASA. Error: '' @ e)),
      [time_params env lat lng date_str, time_params env lat lng (strftime env d7)])"
  using assms by (simp add: get_nasa_similarity_for_location_def fetch_def)

lemma routine_scored:
  assumes "strptime env date_str = Some d"
    and "minus_days d 7 = Inr d7"
    and "fetch_result env 0 (time_params env lat lng date_str) = Inr b1"
    and "fetch_result env 1 (time_params env lat lng (strftime env d7)) = Inr b2"
    and "week_score env b1 b2 = Inr (vec1, s)"
  shows "get_nasa_similarity_for_location env lat lng date_str threshold =
     fallback env lat lng d threshold vec1 s
       [time_params env lat lng date_str, time_params env lat lng (strftime env d7)]"
  using assms by (simp add: get_nasa_similarity_for_location_def fetch_def)

lemma fallback_not_entered:
  "\<not> s < threshold \<Longrightarrow>
   fallback env lat lng d threshold vec1 s sent = (Returned (Some s) None, sent)"
  by (simp add: fallback_def)

lemma fallback_fetch_fails:
  assumes "s < threshold"
    and "minus_days d 14 = Inr d14"
    and "fetch_result env (length sent) (time_params env lat lng (strftime env d14)) = Inl e"
  shows "fallback env lat lng d threshold vec1 s sent =
     (Returned (Some s) None, sent @ [time_params env lat lng (strftime env d14)])"
  using assms by (simp add: fallback_def fetch_def)

lemma fallback_fetch_succeeds:
  assumes "s < threshold"
    and "minus_days d 14 = Inr d14"
    and "fetch_result env (length sent) (time_params env lat lng (strftime env d14)) = Inr b3"
    and "two_weeks_score env vec1 b3 = Inr s2"
  shows "fallback env lat lng d threshold vec1 s sent =
     (Returned (Some s2) None, sent @ [time_params env lat lng (strftime env d14)])"
  using assms by (simp add: fallback_def fetch_def)

lemma fallback_requests:
  assumes "s < threshold"
    and "minus_days d 14 = Inr d14"
  shows "snd (fallback env lat lng d threshold vec1 s sent) =
     sent @ [time_params env lat lng (strftime env d14)]"
  using assms by (simp add: fallback_def fetch_def split: sum.splits)

lemma week_score_vec1:
  "week_score env b1 b2 = Inr (vec1, s) \<Longrightarrow>
   \<exists>img1 img1_resized. imread env b1 = Inr img1 \<and>
      resize env img1 (100, 100) True = Inr img1_resized \<and> vec1 = np_flatten env img1_resized"
  by (auto simp: week_score_def Let_def split: sum.splits)

lemma api_call:
  assumes "parse_request env data = Inr (lat, lng, JStr date_str, threshold)"
    and "get_nasa_similarity_for_location env lat lng date_str threshold = (Returned score err, sent)"
  shows "calculate_similarity_api env data = (respond env score err threshold, sent)"
  using assms by (simp add: calculate_similarity_api_def)

lemma fallback_returned:
  "fst (fallback env lat lng d threshold vec1 s sent) = Returned score err \<Longrightarrow>
   score \<noteq> None \<and> err = None"
  by (auto simp: fallback_def fetch_def split: if_splits sum.splits)

lemma routine_returned:
  "fst (get_nasa_similarity_for_location env lat lng date_str threshold) = Returned score err \<Longrightarrow>
   (score = None \<and> (\<exists>m. err = Some m \<and> m \<noteq> [])) \<or> (score \<noteq> None \<and> err = None)"
  by (auto simp: get_nasa_similarity_for_location_def fetch_def
      split: option.splits sum.splits prod.splits dest: fallback_returned)

lemma fallback_sent:
  "r \<in> set (snd (fallback env lat lng d threshold vec1 s sent)) \<Longrightarrow>
   r \<in> set sent \<or> (\<exists>t. r = time_params env lat lng t)"
  by (auto simp: fallback_def fetch_def split: if_splits sum.splits)

lemma routine_sent:
  "r \<in> set (snd (get_nasa_similarity_for_location env lat lng date_str threshold)) \<Longrightarrow>
   \<exists>t. r = time_params env lat lng t"
  by (auto simp: get_nasa_similarity_for_location_def fetch_def
      split: option.splits sum.splits prod.splits dest!: fallback_sent)

lemma parse_request_ends:
  "parse_request env data = Inl r \<Longrightarrow> (\<exists>body. r = Response 400 body) \<or> (\<exists>x. r = Unhandled x)"
  by (auto simp: parse_request_def split: if_splits sum.splits)

lemma respond_not_500:
  "(score = None \<and> (\<exists>m. err = Some m \<and> m \<noteq> [])) \<or> (score \<noteq> None \<and> err = None) \<Longrightarrow>
   respond env score err threshold \<noteq> Response 500 body"
  by (auto simp: respond_def split: option.splits)

lemma api_not_500: "fst (calculate_similarity_api env data) \<noteq> Response 500 body"
proof (cases "parse_request env data")
  case (Inl r)
  then show ?thesis
    using parse_request_ends [OF Inl] by (auto simp: calculate_similarity_api_def)
next
  case (Inr args)
  obtain lat lng ds threshold where args: "args = (lat, lng, ds, threshold)"
    by (cases args) auto
  show ?thesis
  proof (cases ds)
    case (JStr s)
    obtain out sent where run: "get_nasa_similarity_for_location env lat lng s threshold = (out, sent)"
      by (cases "get_nasa_similarity_for_location env lat lng s threshold") auto
    show ?thesis
    proof (cases out)
      case (Returned score err)
      with run have "fst (get_nasa_similarity_for_location env lat lng s threshold) = Returned score err"
        by simp
      from respond_not_500 [OF routine_returned [OF this]] Inr args JStr run Returned
      show ?thesis by (simp add: calculate_similarity_api_def)
    next
      case (Raised x)
      with Inr args JStr run show ?thesis by (simp add: calculate_similarity_api_def)
    qed
  qed (simp_all add: Inr args calculate_similarity_api_def)
qed

lemma time_params_lookup:
  "map_of (time_params env lat lng t) k =
     (if k = ''TIME'' then Some t else map_of (base_params env lat lng) k)"
  by (simp add: time_params_def update_conv')

lemma time_params_keys:
  "map fst (time_params env lat lng t) = map fst (base_params env lat lng) @ [''TIME'']"
  by (simp add: time_params_def base_params_def)


lemma respond_scored:
  "\<exists>message. respond env (Some s) None threshold =
     Response 200 (JObj
       [(''status'', JStr (if s = 1 then ''IDENTICAL''
                           else if s < threshold then ''SIGNIFICANT_CHANGE_DETECTED''
                           else ''NO_SIGNIFICANT_CHANGE'')),
        (''message'', JStr message),
        (''similarity_score'', JNum s),
        (''threshold_used'', JNum threshold)])"
  by (simp add: respond_def)

lemma respond_error:
  "m \<noteq> [] \<Longrightarrow> respond env score (Some m) threshold = Response 502 (error_body m)"
  by (simp add: respond_def)

subsection \<open>The fallback\<close>

text \<open>
  C1. Both initial fetches succeed, the week-prior score is strictly below the threshold,
  and the request for the image of two weeks before (the target date minus 14 days) is
  made and fails with a RequestException. Then the routine returns the week-prior score
  and no error, after exactly three requests, and the handler answers 200 with that score
  as \<^verbatim>\<open>similarity_score\<close>.
\<close>

theorem fallback_fetch_failure_keeps_week_score:
  assumes "strptime env date_str = Some d"
    and "minus_days d 7 = Inr d7"
    and "fetch_result env 0 (time_params env lat lng date_str) = Inr b1"
    and "fetch_result env 1 (time_params env lat lng (strftime env d7)) = Inr b2"
    and "week_score env b1 b2 = Inr (vec1, s)"
    and "s < threshold"
    and "minus_days d 14 = Inr d14"
    and "fetch_result env 2 (time_params env lat lng (strftime env d14)) = Inl e"
  shows "get_nasa_similarity_for_location env lat lng date_str threshold =
           (Returned (Some s) None,
            [time_params env lat lng date_str,
             time_params env lat lng (strftime env d7),
             time_params env lat lng (strftime env d14)]) \<and>
         (\<forall>data. parse_request env data = Inr (lat, lng, JStr date_str, threshold) \<longrightarrow>
            (\<exists>status message.
               fst (calculate_similarity_api env data) =
                 Response 200 (JObj
                   [(''status'', JStr status),
                    (''message'', JStr message),
                    (''similarity_score'', JNum s),
                    (''threshold_used'', JNum threshold)])))"
proof -
  let ?sent = "[time_params env lat lng date_str, time_params env lat lng (strftime env d7)]"
  have "fallback env lat lng d threshold vec1 s ?sent =
          (Returned (Some s) None, ?sent @ [time_params env lat lng (strftime env d14)])"
    using fallback_fetch_fails [OF assms(6) assms(7), of env ?sent lat lng e vec1] assms(8)
    by (simp add: numeral_2_eq_2)
  with routine_scored [OF assms(1-5)]
  have run: "get_nasa_similarity_for_location env lat lng date_str threshold =
          (Returned (Some s) None, ?sent @ [time_params env lat lng (strftime env d14)])"
    by simp
  have "\<exists>status message.
          fst (calculate_similarity_api env data) =
            Response 200 (JObj
              [(''status'', JStr status), (''message'', JStr message),
               (''similarity_score'', JNum s), (''threshold_used'', JNum threshold)])"
    if "parse_request env data = Inr (lat, lng, JStr date_str, threshold)" for data
    using api_call [OF that run] respond_scored [of env s threshold] by auto
  with run show ?thesis by simp
qed

text \<open>The example request, against a service that answers twice and then refuses.\<close>

theorem fallback_fetch_failure_keeps_week_score_witness:
  "get_nasa_similarity_for_location (example_env gibs_two_then_down)
       (-3.4653) (-62.2159) ''2023-08-15'' 0.75 =
     (Returned (Some 0.5) None,
      [time_params (example_env gibs_two_then_down) (-3.4653) (-62.2159) ''2023-08-15'',
       time_params (example_env gibs_two_then_down) (-3.4653) (-62.2159) ''2023-08-08'',
       time_params (example_env gibs_two_then_down) (-3.4653) (-62.2159) ''2023-08-01'']) \<and>
   (\<exists>status message.
      fst (calculate_similarity_api (example_env gibs_two_then_down)
            (example_request ''2023-08-15'')) =
        Response 200 (JObj
          [(''status'', JStr status),
           (''message'', JStr message),
           (''similarity_score'', JNum 0.5),
           (''threshold_used'', JNum 0.75)]))"
proof -
  let ?env = "example_env gibs_two_then_down"
  have dates: "strptime ?env ''2023-08-15'' = Some 738747"
    "minus_days 738747 7 = Inr 738740" "minus_days 738747 14 = Inr 738733"
    "strftime ?env 738740 = ''2023-08-08''" "strftime ?env 738733 = ''2023-08-01''"
    by (simp_all add: example_env_def minus_days_def)
  have f0: "fetch_result ?env 0 (time_params ?env (-3.4653) (-62.2159) ''2023-08-15'') =
      Inr ''png 2023-08-15''"
    by (simp add: fetch_result_def raise_for_status_def time_params_lookup
        example_env_def gibs_two_then_down_def gibs_up_def)
  have f1: "fetch_result ?env 1 (time_params ?env (-3.4653) (-62.2159) (strftime ?env 738740)) =
      Inr ''png 2023-08-08''"
    by (simp add: fetch_result_def raise_for_status_def time_params_lookup
        example_env_def gibs_two_then_down_def gibs_up_def)
  have f2: "fetch_result ?env 2 (time_params ?env (-3.4653) (-62.2159) (strftime ?env 738733)) =
      Inl ''connection refused''"
    by (simp add: fetch_result_def example_env_def gibs_two_then_down_def)
  have ws: "week_score ?env ''png 2023-08-15'' ''png 2023-08-08'' = Inr (''png 2023-08-15'', 0.5)"
    by (simp add: week_score_def example_env_def)
  have below: "(0.5::real) < 0.75" by simp
  have req: "parse_request ?env (example_request ''2023-08-15'') =
      Inr (-3.4653, -62.2159, JStr ''2023-08-15'', 0.75)"
    by (simp add: parse_request_def example_request_def required_fields_def read_fields_def)
  from fallback_fetch_failure_keeps_week_score
    [OF dates(1) dates(2) f0 f1 ws below dates(3) f2] req
  show ?thesis by (simp add: dates)
qed

text \<open>
  C2. Both initial fetches succeed, the week-prior score is strictly below the threshold,
  and the request for the image of two weeks before succeeds and its image is scored.
  Then the routine returns the cosine similarity between the vector of the target-date
  image and the vector of the two-week-prior image, whatever that score is (no hypothesis
  compares it with the threshold or with the week-prior score), and exactly one fallback
  request is made: three requests in all.
\<close>

theorem fallback_score_replaces_week_score:
  assumes "strptime env date_str = Some d"
    and "minus_days d 7 = Inr d7"
    and "fetch_result env 0 (time_params env lat lng date_str) = Inr b1"
    and "fetch_result env 1 (time_params env lat lng (strftime env d7)) = Inr b2"
    and "week_score env b1 b2 = Inr (vec1, s)"
    and "s < threshold"
    and "minus_days d 14 = Inr d14"
    and "fetch_result env 2 (time_params env lat lng (strftime env d14)) = Inr b3"
    and "imread env b3 = Inr img3"
    and "resize env img3 (100, 100) True = Inr img3_resized"
    and "cosine_similarity env vec1 (np_flatten env img3_resized) = Inr s2"
  shows "get_nasa_similarity_for_location env lat lng date_str threshold =
           (Returned (Some s2) None,
            [time_params env lat lng date_str,
             time_params env lat lng (strftime env d7),
             time_params env lat lng (strftime env d14)]) \<and>
         (\<exists>img1 img1_resized.
            imread env b1 = Inr img1 \<and>
            resize env img1 (100, 100) True = Inr img1_resized \<and>
            vec1 = np_flatten env img1_resized)"
proof -
  let ?sent = "[time_params env lat lng date_str, time_params env lat lng (strftime env d7)]"
  have "two_weeks_score env vec1 b3 = Inr s2"
    using assms(9-11) by (simp add: two_weeks_score_def)
  with fallback_fetch_succeeds [OF assms(6) assms(7), of env ?sent lat lng b3 vec1 s2] assms(8)
  have "fallback env lat lng d threshold vec1 s ?sent =
          (Returned (Some s2) None, ?sent @ [time_params env lat lng (strftime env d14)])"
    by (simp add: numeral_2_eq_2)
  with routine_scored [OF assms(1-5)] week_score_vec1 [OF assms(5)]
  show ?thesis by simp
qed

text \<open>
  The example request against a service that always answers: the second score, 0.25, is
  below the threshold and below the first score, 0.5, and is what is returned.
\<close>

theorem fallback_score_replaces_week_score_witness:
  "week_score (example_env gibs_up) ''png 2023-08-15'' ''png 2023-08-08'' =
     Inr (''png 2023-08-15'', 0.5) \<and>
   cosine_similarity (example_env gibs_up) ''png 2023-08-15'' ''png 2023-08-01'' = Inr 0.25 \<and>
   get_nasa_similarity_for_location (example_env gibs_up)
       (-3.4653) (-62.2159) ''2023-08-15'' 0.75 =
     (Returned (Some 0.25) None,
      [time_params (example_env gibs_up) (-3.4653) (-62.2159) ''2023-08-15'',
       time_params (example_env gibs_up) (-3.4653) (-62.2159) ''2023-08-08'',
       time_params (example_env gibs_up) (-3.4653) (-62.2159) ''2023-08-01''])"
proof -
  let ?env = "example_env gibs_up"
  have dates: "strptime ?env ''2023-08-15'' = Some 738747"
    "minus_days 738747 7 = Inr 738740" "minus_days 738747 14 = Inr 738733"
    "strftime ?env 738740 = ''2023-08-08''" "strftime ?env 738733 = ''2023-08-01''"
    by (simp_all add: example_env_def minus_days_def)
  have f0: "fetch_result ?env 0 (time_params ?env (-3.4653) (-62.2159) ''2023-08-15'') =
      Inr ''png 2023-08-15''"
    by (simp add: fetch_result_def raise_for_status_def time_params_lookup
        example_env_def gibs_up_def)
  have f1: "fetch_result ?env 1 (time_params ?env (-3.4653) (-62.2159) (strftime ?env 738740)) =
      Inr ''png 2023-08-08''"
    by (simp add: fetch_result_def raise_for_status_def time_params_lookup
        example_env_def gibs_up_def)
  have f2: "fetch_result ?env 2 (time_params ?env (-3.4653) (-62.2159) (strftime ?env 738733)) =
      Inr ''png 2023-08-01''"
    by (simp add: fetch_result_def raise_for_status_def time_params_lookup
        example_env_def gibs_up_def)
  have ws: "week_score ?env ''png 2023-08-15'' ''png 2023-08-08'' = Inr (''png 2023-08-15'', 0.5)"
    by (simp add: week_score_def example_env_def)
  have below: "(0.5::real) < 0.75" by simp
  have img: "imread ?env ''png 2023-08-01'' = Inr ''png 2023-08-01''"
    "resize ?env ''png 2023-08-01'' (100, 100) True = Inr ''png 2023-08-01''"
    by (simp_all add: example_env_def)
  have cs: "cosine_similarity ?env ''png 2023-08-15'' (np_flatten ?env ''png 2023-08-01'') = Inr 0.25"
    by (simp add: example_env_def)
  have cs': "cosine_similarity ?env ''png 2023-08-15'' ''png 2023-08-01'' = Inr 0.25"
    by (simp add: example_env_def)
  from fallback_score_replaces_week_score
    [OF dates(1) dates(2) f0 f1 ws below dates(3) f2 img cs] ws cs'
  show ?thesis by (simp add: dates)
qed

text \<open>
  C3. Both initial fetches succeed and the week-prior score is at least the threshold.
  Then the routine returns that score after exactly two requests (no fallback request),
  and the handler answers 200 with status \<^verbatim>\<open>IDENTICAL\<close> if the score is 1.0 and
  \<^verbatim>\<open>NO_SIGNIFICANT_CHANGE\<close> otherwise.
\<close>

theorem no_fallback_at_or_above_threshold:
  assumes "strptime env date_str = Some d"
    and "minus_days d 7 = Inr d7"
    and "fetch_result env 0 (time_params env lat lng date_str) = Inr b1"
    and "fetch_result env 1 (time_params env lat lng (strftime env d7)) = Inr b2"
    and "week_score env b1 b2 = Inr (vec1, s)"
    and "threshold \<le> s"
  shows "get_nasa_similarity_for_location env lat lng date_str threshold =
           (Returned (Some s) None,
            [time_params env lat lng date_str, time_params env lat lng (strftime env d7)]) \<and>
         (\<forall>data. parse_request env data = Inr (lat, lng, JStr date_str, threshold) \<longrightarrow>
            (\<exists>message.
               calculate_similarity_api env data =
                 (Response 200 (JObj
                    [(''status'', JStr (if s = 1 then ''IDENTICAL'' else ''NO_SIGNIFICANT_CHANGE'')),
                     (''message'', JStr message),
                     (''similarity_score'', JNum s),
                     (''threshold_used'', JNum threshold)]),
                  [time_params env lat lng date_str,
                   time_params env lat lng (strftime env d7)])))"
proof -
  let ?sent = "[time_params env lat lng date_str, time_params env lat lng (strftime env d7)]"
  have not_below: "\<not> s < threshold"
    using assms(6) by simp
  have run: "get_nasa_similarity_for_location env lat lng date_str threshold =
      (Returned (Some s) None, ?sent)"
    using routine_scored [OF assms(1-5)] fallback_not_entered [OF not_below] by simp
  have "\<exists>message.
          calculate_similarity_api env data =
            (Response 200 (JObj
               [(''status'', JStr (if s = 1 then ''IDENTICAL'' else ''NO_SIGNIFICANT_CHANGE'')),
                (''message'', JStr message),
                (''similarity_score'', JNum s),
                (''threshold_used'', JNum threshold)]), ?sent)"
    if "parse_request env data = Inr (lat, lng, JStr date_str, threshold)" for data
    using api_call [OF that run] respond_scored [of env s threshold] not_below by auto
  with run show ?thesis by simp
qed

text \<open>The example request with threshold 0.4: the week-prior score 0.5 is enough.\<close>

theorem no_fallback_at_or_above_threshold_witness:
  "get_nasa_similarity_for_location (example_env gibs_up)
       (-3.4653) (-62.2159) ''2023-08-15'' 0.4 =
     (Returned (Some 0.5) None,
      [time_params (example_env gibs_up) (-3.4653) (-62.2159) ''2023-08-15'',
       time_params (example_env gibs_up) (-3.4653) (-62.2159) ''2023-08-08'']) \<and>
   (\<exists>message.
      calculate_similarity_api (example_env gibs_up)
        (JObj [(''lat'', JNum (-3.4653)), (''lng'', JNum (-62.2159)),
               (''date_str'', JStr ''2023-08-15''), (''threshold'', JNum 0.4)]) =
        (Response 200 (JObj
           [(''status'', JStr ''NO_SIGNIFICANT_CHANGE''),
            (''message'', JStr message),
            (''similarity_score'', JNum 0.5),
            (''threshold_used'', JNum 0.4)]),
         [time_params (example_env gibs_up) (-3.4653) (-62.2159) ''2023-08-15'',
          time_params (example_env gibs_up) (-3.4653) (-62.2159) ''2023-08-08'']))"
proof -
  let ?env = "example_env gibs_up"
  have dates: "strptime ?env ''2023-08-15'' = Some 738747"
    "minus_days 738747 7 = Inr 738740" "strftime ?env 738740 = ''2023-08-08''"
    by (simp_all add: example_env_def minus_days_def)
  have f0: "fetch_result ?env 0 (time_params ?env (-3.4653) (-62.2159) ''2023-08-15'') =
      Inr ''png 2023-08-15''"
    by (simp add: fetch_result_def raise_for_status_def time_params_lookup
        example_env_def gibs_up_def)
  have f1: "fetch_result ?env 1 (time_params ?env (-3.4653) (-62.2159) (strftime ?env 738740)) =
      Inr ''png 2023-08-08''"
    by (simp add: fetch_result_def raise_for_status_def time_params_lookup
        example_env_def gibs_up_def)
  have ws: "week_score ?env ''png 2023-08-15'' ''png 2023-08-08'' = Inr (''png 2023-08-15'', 0.5)"
    by (simp add: week_score_def example_env_def)
  have above: "(0.4::real) \<le> 0.5" by simp
  have req: "parse_request ?env
      (JObj [(''lat'', JNum (-3.4653)), (''lng'', JNum (-62.2159)),
             (''date_str'', JStr ''2023-08-15''), (''threshold'', JNum 0.4)]) =
      Inr (-3.4653, -62.2159, JStr ''2023-08-15'', 0.4)"
    by (simp add: parse_request_def required_fields_def read_fields_def)
  from no_fallback_at_or_above_threshold [OF dates(1) dates(2) f0 f1 ws above] req
  show ?thesis by (simp add: dates)
qed

subsection \<open>Failures of the initial fetches\<close>

text \<open>
  C5. The date parses and one of the two initial fetches fails with a RequestException
  (raised by \<^verbatim>\<open>requests.get\<close>, or by \<^verbatim>\<open>raise_for_status\<close> for a status from 400 to
  599): the first, or the second after the first succeeded. Then the routine returns no
  score and the message \<^verbatim>\<open>Could not retrieve images from NASA. Error: \<close> followed by
  the text of the exception; no request is repeated (the requests made are the first
  alone, or the first and the second); and the handler answers 502 with that message as
  \<^verbatim>\<open>error\<close>.
\<close>

theorem initial_fetch_failure_is_502:
  assumes "strptime env date_str = Some d"
    and "minus_days d 7 = Inr d7"
    and "fetch_result env 0 (time_params env lat lng date_str) = Inl e \<or>
         (fetch_result env 0 (time_params env lat lng date_str) = Inr b1 \<and>
          fetch_result env 1 (time_params env lat lng (strftime env d7)) = Inl e)"
  shows "\<exists>sent.
           get_nasa_similarity_for_location env lat lng date_str threshold =
             (Returned None (Some (''Could not retrieve images from NASA. Error: '' @ e)), sent) \<and>
           sent = (case fetch_result env 0 (time_params env lat lng date_str) of
                     Inl e1 \<Rightarrow> [time_params env lat lng date_str]
                   | Inr buf \<Rightarrow> [time_params env lat lng date_str,
                                  time_params env lat lng (strftime env d7)]) \<and>
           (\<forall>data. parse_request env data = Inr (lat, lng, JStr date_str, threshold) \<longrightarrow>
              calculate_similarity_api env data =
                (Response 502
                   (JObj [(''error'',
                           JStr (''Could not retrieve images from NASA. Error: '' @ e))]),
                 sent))"
proof -
  let ?msg = "''Could not retrieve images from NASA. Error: '' @ e"
  let ?sent = "case fetch_result env 0 (time_params env lat lng date_str) of
                 Inl e1 \<Rightarrow> [time_params env lat lng date_str]
               | Inr buf \<Rightarrow> [time_params env lat lng date_str,
                              time_params env lat lng (strftime env d7)]"
  have run: "get_nasa_similarity_for_location env lat lng date_str threshold =
      (Returned None (Some ?msg), ?sent)"
    using assms(3)
  proof
    assume first: "fetch_result env 0 (time_params env lat lng date_str) = Inl e"
    then show ?thesis
      using routine_first_fetch_fails [OF assms(1) assms(2) first] by simp
  next
    assume second: "fetch_result env 0 (time_params env lat lng date_str) = Inr b1 \<and>
      fetch_result env 1 (time_params env lat lng (strftime env d7)) = Inl e"
    then show ?thesis
      using routine_second_fetch_fails [OF assms(1) assms(2), of lat lng b1 e] by simp
  qed
  have nonempty: "?msg \<noteq> []"
    by simp
  have "calculate_similarity_api env data = (Response 502 (JObj [(''error'', JStr ?msg)]), ?sent)"
    if "parse_request env data = Inr (lat, lng, JStr date_str, threshold)" for data
    using api_call [OF that run] respond_error [OF nonempty, of env None threshold]
    by (simp add: error_body_def)
  with run show ?thesis by blast
qed

text \<open>
  The example request against a service that answers the first request and then answers
  503: \<^verbatim>\<open>raise_for_status\<close> raises, two requests are made.
\<close>

theorem initial_fetch_failure_is_502_witness:
  "fetch_result (example_env gibs_one_then_503) 1
     (time_params (example_env gibs_one_then_503) (-3.4653) (-62.2159) ''2023-08-08'') =
     Inl ''Server Error'' \<and>
   calculate_similarity_api (example_env gibs_one_then_503) (example_request ''2023-08-15'') =
     (Response 502
        (JObj [(''error'', JStr ''Could not retrieve images from NASA. Error: Server Error'')]),
      [time_params (example_env gibs_one_then_503) (-3.4653) (-62.2159) ''2023-08-15'',
       time_params (example_env gibs_one_then_503) (-3.4653) (-62.2159) ''2023-08-08''])"
proof -
  let ?env = "example_env gibs_one_then_503"
  have dates: "strptime ?env ''2023-08-15'' = Some 738747"
    "minus_days 738747 7 = Inr 738740" "strftime ?env 738740 = ''2023-08-08''"
    by (simp_all add: example_env_def minus_days_def)
  have f0: "fetch_result ?env 0 (time_params ?env (-3.4653) (-62.2159) ''2023-08-15'') =
      Inr ''png 2023-08-15''"
    by (simp add: fetch_result_def raise_for_status_def time_params_lookup
        example_env_def gibs_one_then_503_def gibs_up_def)
  have f1: "fetch_result ?env 1 (time_params ?env (-3.4653) (-62.2159) (strftime ?env 738740)) =
      Inl ''Server Error''"
    by (simp add: fetch_result_def raise_for_status_def example_env_def gibs_one_then_503_def)
  have fails: "fetch_result ?env 0 (time_params ?env (-3.4653) (-62.2159) ''2023-08-15'') =
        Inl ''Server Error'' \<or>
      (fetch_result ?env 0 (time_params ?env (-3.4653) (-62.2159) ''2023-08-15'') =
         Inr ''png 2023-08-15'' \<and>
       fetch_result ?env 1 (time_params ?env (-3.4653) (-62.2159) (strftime ?env 738740)) =
         Inl ''Server Error'')"
    using f0 f1 by simp
  have req: "parse_request ?env (example_request ''2023-08-15'') =
      Inr (-3.4653, -62.2159, JStr ''2023-08-15'', 0.75)"
    by (simp add: parse_request_def example_request_def required_fields_def read_fields_def)
  from initial_fetch_failure_is_502 [OF dates(1) dates(2) fails, where threshold = "0.75"] req f0 f1
  show ?thesis by (auto simp: dates)
qed

subsection \<open>The response\<close>

text \<open>
  C6. When the routine returns a score, the handler answers 200; the \<^verbatim>\<open>status\<close> of the
  body is \<^verbatim>\<open>IDENTICAL\<close> if the score is 1.0, otherwise
  \<^verbatim>\<open>SIGNIFICANT_CHANGE_DETECTED\<close> if the score is below the threshold, otherwise
  \<^verbatim>\<open>NO_SIGNIFICANT_CHANGE\<close>; \<^verbatim>\<open>similarity_score\<close> is the score and
  \<^verbatim>\<open>threshold_used\<close> the threshold.
\<close>

theorem status_derived_from_final_score:
  assumes "parse_request env data = Inr (lat, lng, JStr date_str, threshold)"
    and "get_nasa_similarity_for_location env lat lng date_str threshold =
           (Returned (Some s) err, sent)"
  shows "\<exists>message.
           calculate_similarity_api env data =
             (Response 200 (JObj
                [(''status'', JStr (if s = 1 then ''IDENTICAL''
                                    else if s < threshold then ''SIGNIFICANT_CHANGE_DETECTED''
                                    else ''NO_SIGNIFICANT_CHANGE'')),
                 (''message'', JStr message),
                 (''similarity_score'', JNum s),
                 (''threshold_used'', JNum threshold)]),
              sent)"
proof -
  have "fst (get_nasa_similarity_for_location env lat lng date_str threshold) =
      Returned (Some s) err"
    using assms(2) by simp
  from routine_returned [OF this] have "err = None"
    by simp
  with api_call [OF assms] respond_scored [of env s threshold] show ?thesis
    by auto
qed

text \<open>The example request against a service that always answers: the final score is 0.25.\<close>

theorem status_derived_from_final_score_witness:
  "\<exists>message.
     calculate_similarity_api (example_env gibs_up) (example_request ''2023-08-15'') =
       (Response 200 (JObj
          [(''status'', JStr ''SIGNIFICANT_CHANGE_DETECTED''),
           (''message'', JStr message),
           (''similarity_score'', JNum 0.25),
           (''threshold_used'', JNum 0.75)]),
        [time_params (example_env gibs_up) (-3.4653) (-62.2159) ''2023-08-15'',
         time_params (example_env gibs_up) (-3.4653) (-62.2159) ''2023-08-08'',
         time_params (example_env gibs_up) (-3.4653) (-62.2159) ''2023-08-01''])"
proof -
  let ?env = "example_env gibs_up"
  have req: "parse_request ?env (example_request ''2023-08-15'') =
      Inr (-3.4653, -62.2159, JStr ''2023-08-15'', 0.75)"
    by (simp add: parse_request_def example_request_def required_fields_def read_fields_def)
  have run: "get_nasa_similarity_for_location ?env (-3.4653) (-62.2159) ''2023-08-15'' 0.75 =
      (Returned (Some 0.25) None,
       [time_params ?env (-3.4653) (-62.2159) ''2023-08-15'',
        time_params ?env (-3.4653) (-62.2159) ''2023-08-08'',
        time_params ?env (-3.4653) (-62.2159) ''2023-08-01''])"
    by (simp add: get_nasa_similarity_for_location_def fallback_def fetch_def fetch_result_def
        raise_for_status_def week_score_def two_weeks_score_def minus_days_def
        time_params_lookup example_env_def gibs_up_def)
  from status_derived_from_final_score [OF req run] show ?thesis
    by simp
qed

subsection \<open>What the routine returns\<close>

lemma respond_200_threshold:
  "respond env score err threshold = Response 200 (JObj items) \<Longrightarrow>
   map_of items ''threshold_used'' = Some (JNum threshold)"
  by (auto simp: respond_def error_body_def split: option.splits if_splits)

lemma api_200_from_respond:
  assumes "calculate_similarity_api env data = (Response 200 body, sent)"
  shows "\<exists>lat lng ds threshold score err.
           parse_request env data = Inr (lat, lng, ds, threshold) \<and>
           respond env score err threshold = Response 200 body"
proof (cases "parse_request env data")
  case (Inl r)
  with assms parse_request_ends [OF Inl] show ?thesis
    by (auto simp: calculate_similarity_api_def)
next
  case (Inr args)
  with assms show ?thesis
    by (auto simp: calculate_similarity_api_def split: prod.splits json.splits outcome.splits)
qed

text \<open>
  C7, as corrected. Whenever the routine returns, exactly one of the score and the error
  message is \<^verbatim>\<open>None\<close>; and the handler never answers 500, so its last branch
  (neither an error message nor a score) is never taken. The routine does not return on
  every invocation: an exception of the date arithmetic or of the image libraries leaves
  it uncaught.
\<close>

theorem returned_pair_has_exactly_one:
  "(\<forall>score err.
      fst (get_nasa_similarity_for_location env lat lng date_str threshold) = Returned score err \<longrightarrow>
      (score = None) \<noteq> (err = None)) \<and>
   (\<forall>body. fst (calculate_similarity_api env data) \<noteq> Response 500 body)"
proof -
  have "(score = None) \<noteq> (err = None)"
    if "fst (get_nasa_similarity_for_location env lat lng date_str threshold) = Returned score err"
    for score err
    using routine_returned [OF that] by auto
  then show ?thesis
    using api_not_500 [of env data] by blast
qed

text \<open>A malformed date: the routine returns the error message and no score.\<close>

theorem returned_pair_has_exactly_one_witness:
  "fst (get_nasa_similarity_for_location (example_env gibs_up)
         (-3.4653) (-62.2159) ''2024/01/01'' 0.75) =
     Returned None (Some ''Invalid date format. Please use YYYY-MM-DD.'') \<and>
   (\<exists>score err.
      fst (get_nasa_similarity_for_location (example_env gibs_up)
            (-3.4653) (-62.2159) ''2024/01/01'' 0.75) = Returned score err \<and>
      (score = None) \<noteq> (err = None))"
proof -
  have run: "fst (get_nasa_similarity_for_location (example_env gibs_up)
         (-3.4653) (-62.2159) ''2024/01/01'' 0.75) =
     Returned None (Some ''Invalid date format. Please use YYYY-MM-DD.'')"
    by (simp add: get_nasa_similarity_for_location_def example_env_def)
  from returned_pair_has_exactly_one
    [of "example_env gibs_up" "-3.4653" "-62.2159" "''2024/01/01''" "0.75" JNull] run
  show ?thesis by blast
qed

text \<open>
  The claim as stated fails on 0001-01-03: the date parses, the date of the week before
  does not exist, and \<^verbatim>\<open>date1_obj - timedelta(days=7)\<close> on line 31 raises
  OverflowError, which nothing catches. The routine produces neither a score nor an error
  message.
\<close>

theorem early_date_raises_counterexample:
  "get_nasa_similarity_for_location (example_env gibs_up)
      (-3.4653) (-62.2159) ''0001-01-03'' 0.75 = (Raised OverflowError, []) \<and>
   calculate_similarity_api (example_env gibs_up) (example_request ''0001-01-03'') =
     (Unhandled OverflowError, [])"
  by (simp add: calculate_similarity_api_def parse_request_def example_request_def
      required_fields_def read_fields_def get_nasa_similarity_for_location_def
      minus_days_def example_env_def)

subsection \<open>The default threshold\<close>

text \<open>
  C8. When the body is an object without the key \<^verbatim>\<open>threshold\<close>, the threshold that
  the handler passes to the routine is 0.75, and every 200 response reports 0.75 as
  \<^verbatim>\<open>threshold_used\<close>.
\<close>

theorem omitted_threshold_is_075:
  assumes "map_of d ''threshold'' = None"
  shows "(\<forall>lat lng s threshold.
            parse_request env (JObj d) = Inr (lat, lng, JStr s, threshold) \<longrightarrow>
            threshold = 0.75 \<and>
            calculate_similarity_api env (JObj d) =
              (case get_nasa_similarity_for_location env lat lng s 0.75 of
                 (Returned score error_message, sent) \<Rightarrow>
                   (respond env score error_message 0.75, sent)
               | (Raised x, sent) \<Rightarrow> (Unhandled x, sent))) \<and>
         (\<forall>items sent.
            calculate_similarity_api env (JObj d) = (Response 200 (JObj items), sent) \<longrightarrow>
            map_of items ''threshold_used'' = Some (JNum 0.75))"
proof -
  have default: "threshold = 0.75"
    if "parse_request env (JObj d) = Inr (lat, lng, ds, threshold)" for lat lng ds threshold
    using that assms
    by (auto simp: parse_request_def read_fields_def split: if_splits sum.splits option.splits)
  have call: "calculate_similarity_api env (JObj d) =
      (case get_nasa_similarity_for_location env lat lng s 0.75 of
         (Returned score error_message, sent) \<Rightarrow> (respond env score error_message 0.75, sent)
       | (Raised x, sent) \<Rightarrow> (Unhandled x, sent))"
    if "parse_request env (JObj d) = Inr (lat, lng, JStr s, threshold)" for lat lng s threshold
    using that default [OF that]
    by (simp add: calculate_similarity_api_def split: prod.splits outcome.splits)
  have reported: "map_of items ''threshold_used'' = Some (JNum 0.75)"
    if "calculate_similarity_api env (JObj d) = (Response 200 (JObj items), sent)" for items sent
  proof -
    from api_200_from_respond [OF that] obtain lat lng ds threshold score err
      where req: "parse_request env (JObj d) = Inr (lat, lng, ds, threshold)"
        and resp: "respond env score err threshold = Response 200 (JObj items)"
      by blast
    from respond_200_threshold [OF resp] default [OF req] show ?thesis
      by simp
  qed
  from default call reported show ?thesis
    by blast
qed

text \<open>The example request has no \<^verbatim>\<open>threshold\<close>.\<close>

theorem omitted_threshold_is_075_witness:
  "(\<exists>threshold. parse_request (example_env gibs_up) (example_request ''2023-08-15'') =
      Inr (-3.4653, -62.2159, JStr ''2023-08-15'', threshold) \<and> threshold = 0.75) \<and>
   (\<exists>items sent.
      calculate_similarity_api (example_env gibs_up) (example_request ''2023-08-15'') =
        (Response 200 (JObj items), sent) \<and>
      map_of items ''threshold_used'' = Some (JNum 0.75))"
proof -
  let ?env = "example_env gibs_up"
  let ?d = "[(''lat'', JNum (-3.4653)), (''lng'', JNum (-62.2159)),
             (''date_str'', JStr ''2023-08-15'')]"
  have omitted: "map_of ?d ''threshold'' = None"
    by simp
  have req: "parse_request ?env (JObj ?d) =
      Inr (-3.4653, -62.2159, JStr ''2023-08-15'', 0.75)"
    by (simp add: parse_request_def required_fields_def read_fields_def)
  have resp: "\<exists>items sent.
      calculate_similarity_api ?env (JObj ?d) = (Response 200 (JObj items), sent)"
    by (simp add: calculate_similarity_api_def parse_request_def required_fields_def
        read_fields_def respond_def
        get_nasa_similarity_for_location_def fallback_def fetch_def fetch_result_def
        raise_for_status_def week_score_def two_weeks_score_def minus_days_def
        time_params_lookup example_env_def gibs_up_def)
  from omitted_threshold_is_075 [OF omitted, of ?env] req resp show ?thesis
    unfolding example_request_def by blast
qed

subsection \<open>The requests\<close>

lemma base_params_lookup:
  "map_of (base_params env lat lng) ''BBOX'' = Some (bbox_str env lat lng)"
  "map_of (base_params env lat lng) ''WIDTH'' = Some ''1024''"
  "map_of (base_params env lat lng) ''HEIGHT'' = Some ''1024''"
  by (simp_all add: base_params_def)

lemma routine_two_requests:
  assumes "strptime env date_str = Some d"
    and "minus_days d 7 = Inr d7"
    and "fetch_result env 0 (time_params env lat lng date_str) = Inr b1"
  shows "\<exists>rest. snd (get_nasa_similarity_for_location env lat lng date_str threshold) =
           time_params env lat lng date_str # time_params env lat lng (strftime env d7) # rest"
  using assms
  by (auto simp: get_nasa_similarity_for_location_def fetch_def fallback_def
      split: sum.splits prod.splits)

text \<open>
  C9. Every request that the routine sends carries as \<^verbatim>\<open>BBOX\<close> the four numbers
  lng - 0.5, lat - 0.5, lng + 0.5, lat + 0.5, formatted and joined by commas, and the
  size 1024 by 1024. When the date parses and the first fetch succeeds, the first two
  requests sent are the one for the target date and the one for the week before: both
  carry that box and that size.
\<close>

theorem requests_share_bounding_box:
  "(\<forall>r \<in> set (snd (get_nasa_similarity_for_location env lat lng date_str threshold)).
      map_of r ''BBOX'' =
        Some (str_float env (lng - 0.5) @ '','' @ str_float env (lat - 0.5) @ '','' @
              str_float env (lng + 0.5) @ '','' @ str_float env (lat + 0.5)) \<and>
      map_of r ''WIDTH'' = Some ''1024'' \<and>
      map_of r ''HEIGHT'' = Some ''1024'') \<and>
   (\<forall>d d7 b1.
      strptime env date_str = Some d \<and> minus_days d 7 = Inr d7 \<and>
      fetch_result env 0 (time_params env lat lng date_str) = Inr b1 \<longrightarrow>
      (\<exists>r1 r2 rest.
         snd (get_nasa_similarity_for_location env lat lng date_str threshold) = r1 # r2 # rest \<and>
         map_of r1 ''TIME'' = Some date_str \<and>
         map_of r2 ''TIME'' = Some (strftime env d7) \<and>
         map_of r1 ''BBOX'' = map_of r2 ''BBOX'' \<and>
         map_of r1 ''WIDTH'' = map_of r2 ''WIDTH'' \<and>
         map_of r1 ''HEIGHT'' = map_of r2 ''HEIGHT''))"
proof -
  have every: "map_of r ''BBOX'' =
        Some (str_float env (lng - 0.5) @ '','' @ str_float env (lat - 0.5) @ '','' @
              str_float env (lng + 0.5) @ '','' @ str_float env (lat + 0.5)) \<and>
      map_of r ''WIDTH'' = Some ''1024'' \<and> map_of r ''HEIGHT'' = Some ''1024''"
    if "r \<in> set (snd (get_nasa_similarity_for_location env lat lng date_str threshold))" for r
  proof -
    from routine_sent [OF that] obtain t where "r = time_params env lat lng t"
      by blast
    then show ?thesis
      by (simp add: time_params_lookup base_params_lookup bbox_str_def delta_def)
  qed
  have both: "\<exists>r1 r2 rest.
         snd (get_nasa_similarity_for_location env lat lng date_str threshold) = r1 # r2 # rest \<and>
         map_of r1 ''TIME'' = Some date_str \<and>
         map_of r2 ''TIME'' = Some (strftime env d7) \<and>
         map_of r1 ''BBOX'' = map_of r2 ''BBOX'' \<and>
         map_of r1 ''WIDTH'' = map_of r2 ''WIDTH'' \<and>
         map_of r1 ''HEIGHT'' = map_of r2 ''HEIGHT''"
    if "strptime env date_str = Some d" and "minus_days d 7 = Inr d7"
      and "fetch_result env 0 (time_params env lat lng date_str) = Inr b1" for d d7 b1
  proof -
    from routine_two_requests [OF that] obtain rest where
      "snd (get_nasa_similarity_for_location env lat lng date_str threshold) =
         time_params env lat lng date_str # time_params env lat lng (strftime env d7) # rest"
      by blast
    then show ?thesis
      by (simp add: time_params_lookup)
  qed
  from every both show ?thesis
    by blast
qed

text \<open>The example request: the box of the spec's example, in both initial requests.\<close>

theorem requests_share_bounding_box_witness:
  "\<exists>r1 r2 rest.
     snd (get_nasa_similarity_for_location (example_env gibs_up)
           (-3.4653) (-62.2159) ''2023-08-15'' 0.75) = r1 # r2 # rest \<and>
     map_of r1 ''TIME'' = Some ''2023-08-15'' \<and>
     map_of r2 ''TIME'' = Some ''2023-08-08'' \<and>
     map_of r1 ''BBOX'' = Some ''-62.7159,-3.9653,-61.7159,-2.9653'' \<and>
     map_of r2 ''BBOX'' = Some ''-62.7159,-3.9653,-61.7159,-2.9653'' \<and>
     map_of r1 ''WIDTH'' = Some ''1024'' \<and> map_of r2 ''WIDTH'' = Some ''1024'' \<and>
     map_of r1 ''HEIGHT'' = Some ''1024'' \<and> map_of r2 ''HEIGHT'' = Some ''1024''"
proof -
  let ?env = "example_env gibs_up"
  let ?run = "get_nasa_similarity_for_location ?env (-3.4653) (-62.2159) ''2023-08-15'' 0.75"
  have dates: "strptime ?env ''2023-08-15'' = Some 738747 \<and> minus_days 738747 7 = Inr 738740 \<and>
      fetch_result ?env 0 (time_params ?env (-3.4653) (-62.2159) ''2023-08-15'') =
        Inr ''png 2023-08-15''"
    by (simp add: fetch_result_def raise_for_status_def time_params_lookup
        example_env_def gibs_up_def minus_days_def)
  have week: "strftime ?env 738740 = ''2023-08-08''"
    by (simp add: example_env_def)
  have box: "str_float ?env (-62.2159 - 0.5) @ '','' @ str_float ?env (-3.4653 - 0.5) @ '','' @
      str_float ?env (-62.2159 + 0.5) @ '','' @ str_float ?env (-3.4653 + 0.5) =
      ''-62.7159,-3.9653,-61.7159,-2.9653''"
    by (simp add: example_env_def)
  note all = requests_share_bounding_box
    [of ?env "-3.4653" "-62.2159" "''2023-08-15''" "0.75"]
  from all [THEN conjunct2, rule_format, OF dates] obtain r1 r2 rest
    where sent: "snd ?run = r1 # r2 # rest"
      and times: "map_of r1 ''TIME'' = Some ''2023-08-15''"
        "map_of r2 ''TIME'' = Some (strftime ?env 738740)"
    by blast
  from sent have "r1 \<in> set (snd ?run)" "r2 \<in> set (snd ?run)"
    by simp_all
  with all [THEN conjunct1] box
  have "map_of r1 ''BBOX'' = Some ''-62.7159,-3.9653,-61.7159,-2.9653'' \<and>
        map_of r1 ''WIDTH'' = Some ''1024'' \<and> map_of r1 ''HEIGHT'' = Some ''1024''"
       "map_of r2 ''BBOX'' = Some ''-62.7159,-3.9653,-61.7159,-2.9653'' \<and>
        map_of r2 ''WIDTH'' = Some ''1024'' \<and> map_of r2 ''HEIGHT'' = Some ''1024''"
    by auto
  with sent times week show ?thesis
    by auto
qed

text \<open>
  C10. The run reaches the fallback: both initial fetches succeed, the week-prior score
  is below the threshold and the date two weeks before exists. Then exactly three
  requests are sent; the third is the base parameters with \<^verbatim>\<open>TIME\<close> set to the
  formatted target date minus 14 days; it has the keys of the first request, in the same
  order, and the same value as the first request under every key but \<^verbatim>\<open>TIME\<close>
  (\<^verbatim>\<open>SERVICE\<close>, \<^verbatim>\<open>LAYERS\<close>, \<^verbatim>\<open>FORMAT\<close>, \<^verbatim>\<open>CRS\<close>, \<^verbatim>\<open>BBOX\<close>, \<^verbatim>\<open>WIDTH\<close>,
  \<^verbatim>\<open>HEIGHT\<close> among them). All requests go to the one URL of the routine.
\<close>

theorem fallback_request_differs_only_in_time:
  assumes "strptime env date_str = Some d"
    and "minus_days d 7 = Inr d7"
    and "fetch_result env 0 (time_params env lat lng date_str) = Inr b1"
    and "fetch_result env 1 (time_params env lat lng (strftime env d7)) = Inr b2"
    and "week_score env b1 b2 = Inr (vec1, s)"
    and "s < threshold"
    and "minus_days d 14 = Inr d14"
  shows "\<exists>r1 r2 r3.
           snd (get_nasa_similarity_for_location env lat lng date_str threshold) = [r1, r2, r3] \<and>
           r1 = AList.update ''TIME'' date_str (base_params env lat lng) \<and>
           r3 = AList.update ''TIME'' (strftime env (d - 14)) (base_params env lat lng) \<and>
           map_of r3 ''TIME'' = Some (strftime env (d - 14)) \<and>
           map fst r3 = map fst r1 \<and>
           (\<forall>k. k \<noteq> ''TIME'' \<longrightarrow> map_of r3 k = map_of r1 k)"
proof -
  let ?sent = "[time_params env lat lng date_str, time_params env lat lng (strftime env d7)]"
  have d14: "d14 = d - 14"
    using assms(7) by (simp add: minus_days_def split: if_splits)
  have "snd (get_nasa_similarity_for_location env lat lng date_str threshold) =
      ?sent @ [time_params env lat lng (strftime env d14)]"
    using routine_scored [OF assms(1-5), of threshold]
      fallback_requests [OF assms(6) assms(7), where env = env and sent = ?sent]
    by simp
  then show ?thesis
    using d14 by (simp add: time_params_lookup time_params_keys) (simp add: time_params_def)
qed

text \<open>The example request: the third request asks for 2023-08-01.\<close>

theorem fallback_request_differs_only_in_time_witness:
  "\<exists>r1 r2 r3.
     snd (get_nasa_similarity_for_location (example_env gibs_up)
           (-3.4653) (-62.2159) ''2023-08-15'' 0.75) = [r1, r2, r3] \<and>
     r1 = AList.update ''TIME'' ''2023-08-15''
            (base_params (example_env gibs_up) (-3.4653) (-62.2159)) \<and>
     r3 = AList.update ''TIME'' ''2023-08-01''
            (base_params (example_env gibs_up) (-3.4653) (-62.2159)) \<and>
     map_of r3 ''TIME'' = Some ''2023-08-01'' \<and>
     map fst r3 = map fst r1 \<and>
     (\<forall>k. k \<noteq> ''TIME'' \<longrightarrow> map_of r3 k = map_of r1 k)"
proof -
  let ?env = "example_env gibs_up"
  have dates: "strptime ?env ''2023-08-15'' = Some 738747"
    "minus_days 738747 7 = Inr 738740" "minus_days 738747 14 = Inr 738733"
    by (simp_all add: example_env_def minus_days_def)
  have two_weeks: "strftime ?env (738747 - 14) = ''2023-08-01''"
    by (simp add: example_env_def)
  have f0: "fetch_result ?env 0 (time_params ?env (-3.4653) (-62.2159) ''2023-08-15'') =
      Inr ''png 2023-08-15''"
    by (simp add: fetch_result_def raise_for_status_def time_params_lookup
        example_env_def gibs_up_def)
  have f1: "fetch_result ?env 1 (time_params ?env (-3.4653) (-62.2159) (strftime ?env 738740)) =
      Inr ''png 2023-08-08''"
    by (simp add: fetch_result_def raise_for_status_def time_params_lookup
        example_env_def gibs_up_def)
  have ws: "week_score ?env ''png 2023-08-15'' ''png 2023-08-08'' = Inr (''png 2023-08-15'', 0.5)"
    by (simp add: week_score_def example_env_def)
  have below: "(0.5::real) < 0.75" by simp
  from fallback_request_differs_only_in_time [OF dates(1) dates(2) f0 f1 ws below dates(3)]
  show ?thesis
    by (simp only: two_weeks)
qed

subsection \<open>A date that does not parse\<close>

text \<open>
  C4. For the date \<^verbatim>\<open>2024/01/01\<close> the routine returns no score and the message
  \<^verbatim>\<open>Invalid date format. Please use YYYY-MM-DD.\<close> without sending a request, as the
  claim says; but the handler answers 502, the status of its one branch for every error
  message of the routine, and not 400, the status of its own validation errors.
\<close>

theorem invalid_date_is_answered_502:
  "get_nasa_similarity_for_location (example_env gibs_up)
      (-3.4653) (-62.2159) ''2024/01/01'' 0.75 =
     (Returned None (Some ''Invalid date format. Please use YYYY-MM-DD.''), []) \<and>
   calculate_similarity_api (example_env gibs_up) (example_request ''2024/01/01'') =
     (Response 502 (JObj [(''error'', JStr ''Invalid date format. Please use YYYY-MM-DD.'')]), [])"
  by (simp add: calculate_similarity_api_def parse_request_def example_request_def
      required_fields_def read_fields_def get_nasa_similarity_for_location_def
      respond_def error_body_def example_env_def)

end
